theory Spec2Isabelle
  imports Main "HOL-Library.Sublist"
begin

section \<open>The list layout of dataviews: \<open>packages/dataviews/src/view-list.js\<close>\<close>

text \<open>
  \<open>ViewList\<close> is a React function component. One call of the function is one render
  pass: it reads its props, mutates the primary field descriptor, and returns a tree of
  elements whose event handlers are closures over the rendered item. The embedding keeps
  that shape: the props are a record, the returned tree is a record of rows, a handler is
  a function from the event to the sequence of callback invocations it makes, and a
  \<open>TypeError\<close> thrown by a property access on \<open>undefined\<close> is the \<open>Inl\<close> branch of the
  result.
\<close>

subsection \<open>JavaScript values\<close>

text \<open>
  The primitive values an item id, a list key or a rendered child can be. Numbers are
  modelled as integers (ids and positional indices are integers); \<open>JNaN\<close> is kept apart
  because it is falsy.
\<close>

datatype js_value =
    JUndefined
  | JNull
  | JBool bool
  | JNum int
  | JNaN
  | JStr string

text \<open>Truthiness, as \<open>||\<close> and \<open>?:\<close> test it.\<close>

fun truthy :: "js_value \<Rightarrow> bool" where
  "truthy JUndefined = False"
| "truthy JNull = False"
| "truthy (JBool b) = b"
| "truthy (JNum n) = (n \<noteq> 0)"
| "truthy JNaN = False"
| "truthy (JStr s) = (s \<noteq> [])"

text \<open>\<open>a || b\<close>: the left operand when it is truthy, the right one otherwise.\<close>

definition js_or :: "js_value \<Rightarrow> js_value \<Rightarrow> js_value" where
  "js_or a b = (if truthy a then a else b)"

text \<open>
  \<open>Array.prototype.includes\<close> (SameValueZero): on primitives it is equality, with
  \<open>NaN\<close> equal to itself.
\<close>

definition array_includes :: "'a list \<Rightarrow> 'a \<Rightarrow> bool" where
  "array_includes xs v = (v \<in> set xs)"

subsection \<open>Data model\<close>

record item =
  item_id :: js_value
  item_attrs :: "(string \<times> js_value) list"

record format =
  format_type :: string

text \<open>
  A field descriptor. \<open>formats\<close> is an optional property: \<open>None\<close> is a descriptor
  without it (reading it gives \<open>undefined\<close>).
\<close>

record field =
  field_id :: string
  render :: "item \<Rightarrow> js_value"
  formats :: "format list option"

text \<open>\<open>view.layout\<close>: either id may be unset (\<open>undefined\<close>).\<close>

record layout =
  mediaField :: "string option"
  primaryField :: "string option"

record view =
  layout :: layout
  hiddenFields :: "string list"

text \<open>
  The props of \<open>ViewList\<close> (\<open>fields_prop\<close> is the prop \<open>fields\<close>). The callback prop
  \<open>onSelectionChange\<close> belongs to the caller and is opaque: each invocation of it is
  recorded as a \<open>call\<close> value, so a handler is the sequence of invocations it makes.
\<close>

datatype call = OnSelectionChange "item list"

record props =
  view :: view
  fields_prop :: "field list"
  data :: "item list"
  getItemId :: "(item \<Rightarrow> js_value) option"
  selection :: "js_value list"
  deferredRendering :: bool

record event =
  keyCode :: int

text \<open>
  \<open>ENTER\<close> and \<open>SPACE\<close> are imported from \<open>@wordpress/keycodes\<close>, which is not among
  the sources: they are parameters of the model.
\<close>

record keycodes =
  ENTER :: int
  SPACE :: int

text \<open>The second argument of \<open>useAsyncList\<close>.\<close>

record async_config =
  step :: nat

datatype error = TypeError

subsection \<open>The rendered tree\<close>

datatype media_child = Rendered js_value | MediaPlaceholder

record span =
  span_key :: string
  span_className :: string
  span_child :: js_value

text \<open>
  One \<open>li\<close> with the \<open>div role="button"\<close> it holds. \<open>className\<close> is the list of class
  names that \<open>classNames\<close> joins with spaces.
\<close>

record li =
  key :: js_value
  role :: string
  tabIndex :: int
  aria_pressed :: bool
  onKeyDown :: "event \<Rightarrow> call list"
  className :: "string list"
  onClick :: "event \<Rightarrow> call list"
  media_wrapper :: media_child
  primary_span :: js_value
  fields_div :: "span list"

record ul =
  ul_className :: string
  children :: "li list"

subsection \<open>The component\<close>

text \<open>
  \<open>classNames(base, { name: cond, ... })\<close>: the base class and every name whose
  condition holds.
\<close>

definition classNames :: "string \<Rightarrow> (string \<times> bool) list \<Rightarrow> string list" where
  "classNames base conds = base # map fst (filter snd conds)"

text \<open>\<open>usedData = deferredRendering ? shownData : data\<close> (lines 25-26).\<close>

definition usedData ::
  "(item list \<Rightarrow> async_config \<Rightarrow> item list) \<Rightarrow> props \<Rightarrow> item list" where
  "usedData useAsyncList p =
     (let shownData = useAsyncList (data p) \<lparr>step = 3\<rparr>
      in if deferredRendering p then shownData else data p)"

text \<open>\<open>fields.find( field => field.id === view.layout.mediaField )\<close> (lines 27-32).\<close>

definition find_mediaField :: "view \<Rightarrow> field list \<Rightarrow> field option" where
  "find_mediaField v fs = find (\<lambda>f. Some (field_id f) = mediaField (layout v)) fs"

definition find_primaryField :: "view \<Rightarrow> field list \<Rightarrow> field option" where
  "find_primaryField v fs = find (\<lambda>f. Some (field_id f) = primaryField (layout v)) fs"

text \<open>
  \<open>find\<close> returns a reference to the first matching element of the array, so an
  assignment to a property of the result changes that element in place. The array is
  modelled as the list of the descriptors it holds, one object per slot: an object that
  sits in two slots of the array would change in both, which a list of values does not
  show. Where a property depends on it, the object found is required to occur once.
\<close>

fun update_first :: "('a \<Rightarrow> bool) \<Rightarrow> ('a \<Rightarrow> 'a) \<Rightarrow> 'a list \<Rightarrow> 'a list" where
  "update_first P g [] = []"
| "update_first P g (x # xs) = (if P x then g x # xs else x # update_first P g xs)"

definition strip_link :: "format list \<Rightarrow> format list" where
  "strip_link fmts = filter (\<lambda>fmt. format_type fmt \<noteq> ''link'') fmts"

text \<open>
  \<open>primaryField.formats = primaryField.formats.filter( format => format.type !== 'link' )\<close>
  (lines 33-35). Reading \<open>.formats\<close> of \<open>undefined\<close> throws, and so does calling
  \<open>.filter\<close> on a missing \<open>formats\<close>; in both cases nothing has been assigned yet.
\<close>

definition normalize_primaryField :: "view \<Rightarrow> field list \<Rightarrow> error + field list" where
  "normalize_primaryField v fs =
     (case find_primaryField v fs of
        None \<Rightarrow> Inl TypeError
      | Some pf \<Rightarrow>
          (case formats pf of
             None \<Rightarrow> Inl TypeError
           | Some fmts \<Rightarrow>
               Inr (update_first (\<lambda>f. Some (field_id f) = primaryField (layout v))
                      (\<lambda>f. f\<lparr>formats := Some (strip_link fmts)\<rparr>) fs)))"

text \<open>The filter of lines 36-42.\<close>

definition visibleFields :: "view \<Rightarrow> field list \<Rightarrow> field list" where
  "visibleFields v fs =
     filter (\<lambda>f. \<not> array_includes (hiddenFields v) (field_id f) \<and>
                 \<not> array_includes [primaryField (layout v), mediaField (layout v)] (Some (field_id f)))
       fs"

text \<open>\<open>onEnter\<close> (lines 44-49).\<close>

definition onEnter :: "keycodes \<Rightarrow> item \<Rightarrow> event \<Rightarrow> call list" where
  "onEnter kc it ev =
     (if array_includes [ENTER kc, SPACE kc] (keyCode ev) then [OnSelectionChange [it]] else [])"

text \<open>\<open>f?.render( { item } )\<close>: \<open>undefined\<close> when \<open>f\<close> is.\<close>

definition optional_render :: "field option \<Rightarrow> item \<Rightarrow> js_value" where
  "optional_render f it = (case f of None \<Rightarrow> JUndefined | Some fd \<Rightarrow> render fd it)"

text \<open>\<open>getItemId?.( item )\<close>.\<close>

definition optional_getItemId :: "(item \<Rightarrow> js_value) option \<Rightarrow> item \<Rightarrow> js_value" where
  "optional_getItemId g it = (case g of None \<Rightarrow> JUndefined | Some h \<Rightarrow> h it)"

text \<open>The body of the \<open>usedData.map\<close> callback (lines 53-101).\<close>

definition render_item ::
  "keycodes \<Rightarrow> props \<Rightarrow> field option \<Rightarrow> field option \<Rightarrow> field list \<Rightarrow> nat \<times> item \<Rightarrow> li" where
  "render_item kc p mf pf vfs = (\<lambda>(index, it).
     \<lparr> key = js_or (optional_getItemId (getItemId p) it) (JNum (int index)),
       role = ''button'',
       tabIndex = 0,
       aria_pressed = array_includes (selection p) (item_id it),
       onKeyDown = onEnter kc it,
       className = classNames ''dataviews-list-view__item''
         [(''dataviews-list-view__item-selected'', array_includes (selection p) (item_id it))],
       onClick = (\<lambda>_. [OnSelectionChange [it]]),
       media_wrapper =
         (let r = optional_render mf it in if truthy r then Rendered r else MediaPlaceholder),
       primary_span = optional_render pf it,
       fields_div =
         map (\<lambda>f. \<lparr> span_key = field_id f,
                    span_className = ''dataviews-list-view__field'',
                    span_child = render f it \<rparr>) vfs \<rparr>)"

text \<open>
  One render pass (lines 16-104). The result is the props as the caller sees them
  afterwards (the objects it passed in, after the assignment of line 33) and either the
  thrown error or the returned tree. When line 33 throws, nothing has been assigned and
  nothing is returned. \<open>mediaField\<close> and \<open>primaryField\<close> (lines 27-32) are references
  into the fields array, and the id of a field is not assigned to: what the rows read
  through them after line 35 is what \<open>find\<close> gives on the array as mutated.
\<close>

definition ViewList ::
  "(item list \<Rightarrow> async_config \<Rightarrow> item list) \<Rightarrow> keycodes \<Rightarrow> props \<Rightarrow> props \<times> (error + ul)" where
  "ViewList useAsyncList kc p =
     (case normalize_primaryField (view p) (fields_prop p) of
        Inl e \<Rightarrow> (p, Inl e)
      | Inr fs' \<Rightarrow>
          (let p' = p\<lparr>fields_prop := fs'\<rparr>;
               mf = find_mediaField (view p) fs';
               pf = find_primaryField (view p) fs';
               vfs = visibleFields (view p) fs'
           in (p', Inr \<lparr> ul_className = ''dataviews-list-view'',
                          children = map (render_item kc p' mf pf vfs)
                                       (enumerate 0 (usedData useAsyncList p)) \<rparr>)))"

subsection \<open>The reveal scheduler\<close>

text \<open>
  Modelled from the spec: the reveal scheduler (\<open>useAsyncList\<close> of
  \<open>@wordpress/compose\<close>), whose code is not among the sources. By the spec, given the
  full list and a batch size it produces a sequence of growing prefixes of the list over
  successive scheduling ticks; each tick replaces the reveal state wholesale by the prefix
  that is one batch longer, clamped to the full list, until the prefix equals the full
  list.
\<close>

definition reveal_tick :: "nat \<Rightarrow> 'a list \<Rightarrow> 'a list \<Rightarrow> 'a list" where
  "reveal_tick batchSize fullList shown = take (length shown + batchSize) fullList"

text \<open>
  Modelled from the spec: the reveal state after \<open>k\<close> scheduling ticks of the reveal
  scheduler, nothing being revealed before the first tick.
\<close>

fun reveal_state :: "nat \<Rightarrow> 'a list \<Rightarrow> nat \<Rightarrow> 'a list" where
  "reveal_state batchSize fullList 0 = []"
| "reveal_state batchSize fullList (Suc k) =
     reveal_tick batchSize fullList (reveal_state batchSize fullList k)"

text \<open>
  Modelled from the spec: what the hook \<open>useAsyncList\<close> returns in the render pass that
  follows the \<open>k\<close>-th tick, the reveal state for the batch size \<open>step\<close> of its
  configuration.
\<close>

definition useAsyncList_at :: "nat \<Rightarrow> item list \<Rightarrow> async_config \<Rightarrow> item list" where
  "useAsyncList_at k fullList config = reveal_state (step config) fullList k"

subsection \<open>The visible fields, in the words of the specification\<close>

text \<open>
  The fields list minus the hidden fields and minus the media and primary field ids, in
  the order of the fields list.
\<close>

definition spec_visibleFields :: "view \<Rightarrow> field list \<Rightarrow> field list" where
  "spec_visibleFields v fs =
     [f \<leftarrow> fs. field_id f \<notin> set (hiddenFields v) \<union>
                          (set_option (mediaField (layout v)) \<union>
                           set_option (primaryField (layout v)))]"

subsection \<open>A concrete configuration\<close>

definition example_item :: "int \<Rightarrow> item" where
  "example_item n = \<lparr>item_id = JNum n, item_attrs = []\<rparr>"

definition example_field :: "string \<Rightarrow> format list option \<Rightarrow> field" where
  "example_field name fmts = \<lparr>field_id = name, render = (\<lambda>it. JStr name), formats = fmts\<rparr>"

definition example_title :: field where
  "example_title =
     example_field ''title'' (Some [\<lparr>format_type = ''link''\<rparr>, \<lparr>format_type = ''bold''\<rparr>])"

definition example_view :: view where
  "example_view =
     \<lparr>layout = \<lparr>mediaField = Some ''image'', primaryField = Some ''title''\<rparr>,
      hiddenFields = [''date'']\<rparr>"

text \<open>Items 1, 2 and 3 with item 2 selected.\<close>

definition example_props :: props where
  "example_props =
     \<lparr>view = example_view,
      fields_prop = [example_field ''image'' None, example_title,
                     example_field ''author'' None, example_field ''date'' None],
      data = [example_item 1, example_item 2, example_item 3],
      getItemId = Some item_id,
      selection = [JNum 2],
      deferredRendering = False\<rparr>"

definition example_keycodes :: keycodes where
  "example_keycodes = \<lparr>ENTER = 13, SPACE = 32\<rparr>"

text \<open>Four items and deferred rendering.\<close>

definition example_deferred_props :: props where
  "example_deferred_props =
     example_props\<lparr>data := [example_item 1, example_item 2, example_item 3, example_item 4],
                   deferredRendering := True\<rparr>"

text \<open>The second item has the id \<open>0\<close>, and \<open>getItemId\<close> returns the id.\<close>

definition example_falsy_id_props :: props where
  "example_falsy_id_props = example_props\<lparr>data := [example_item 5, example_item 0]\<rparr>"

section \<open>Properties\<close>

subsection \<open>The in-place update and the normalization step\<close>

lemma find_update_first:
  assumes "\<And>x. P (g x) = P x"
  shows "find P (update_first P g xs) = map_option g (find P xs)"
  by (induction xs) (simp_all add: assms)

lemma filter_update_first:
  assumes "\<And>x. P x \<Longrightarrow> \<not> Q x" and "\<And>x. P x \<Longrightarrow> \<not> Q (g x)"
  shows "filter Q (update_first P g xs) = filter Q xs"
  by (induction xs) (simp_all add: assms)

lemma map_update_first:
  assumes "\<And>x. k (g x) = k x"
  shows "map k (update_first P g xs) = map k xs"
  by (induction xs) (simp_all add: assms)





lemma strip_link_no_link: "\<forall>fmt\<in>set (strip_link fmts). format_type fmt \<noteq> ''link''"
  by (simp add: strip_link_def)

lemma normalize_primaryField_Inr:
  assumes "find_primaryField v fs = Some pf" and "formats pf = Some fmts"
  shows "normalize_primaryField v fs =
           Inr (update_first (\<lambda>f. Some (field_id f) = primaryField (layout v))
                  (\<lambda>f. f\<lparr>formats := Some (strip_link fmts)\<rparr>) fs)"
  using assms by (simp add: normalize_primaryField_def)

lemma find_primaryField_normalized:
  assumes "find_primaryField v fs = Some pf" and "formats pf = Some fmts"
  shows "find_primaryField v
           (update_first (\<lambda>f. Some (field_id f) = primaryField (layout v))
              (\<lambda>f. f\<lparr>formats := Some (strip_link fmts)\<rparr>) fs) =
         Some (pf\<lparr>formats := Some (strip_link fmts)\<rparr>)"
  using assms(1) unfolding find_primaryField_def
  by (subst find_update_first) simp_all

text \<open>With pairwise distinct field ids, \<open>find\<close> returns the only field with the id.\<close>

lemma find_primaryField_unique:
  assumes "distinct (map field_id fs)" and "f \<in> set fs"
    and "Some (field_id f) = primaryField (layout v)"
  shows "find_primaryField v fs = Some f"
  using assms unfolding find_primaryField_def
proof (induction fs)
  case Nil
  then show ?case by simp
next
  case (Cons x xs)
  then show ?case by (cases "primaryField (layout v)") (auto simp: image_iff)
qed

subsection \<open>The visible fields\<close>

lemma visibleFields_spec: "visibleFields v fs = spec_visibleFields v fs"
  unfolding visibleFields_def spec_visibleFields_def array_includes_def
  by (cases "mediaField (layout v)"; cases "primaryField (layout v)") (auto intro: filter_cong)

text \<open>
  The filter runs on the array after line 33 has changed the primary field; that field is
  filtered out, so the result is the filter of the array as it was passed in.
\<close>

lemma visibleFields_normalized:
  assumes "normalize_primaryField v fs = Inr fs'"
  shows "visibleFields v fs' = visibleFields v fs"
proof -
  obtain pf fmts where
    fs': "fs' = update_first (\<lambda>f. Some (field_id f) = primaryField (layout v))
                  (\<lambda>f. f\<lparr>formats := Some (strip_link fmts)\<rparr>) fs"
    using assms by (auto simp: normalize_primaryField_def split: option.splits)
  show ?thesis
    unfolding fs' visibleFields_def
    by (rule filter_update_first) (simp_all add: array_includes_def)
qed

subsection \<open>What a render pass returns\<close>

lemma ViewList_Inl:
  assumes "normalize_primaryField (view p) (fields_prop p) = Inl e"
  shows "ViewList h kc p = (p, Inl e)"
  using assms by (simp add: ViewList_def)



lemma ViewList_Inr:
  assumes "normalize_primaryField (view p) (fields_prop p) = Inr fs'"
  shows "ViewList h kc p =
           (p\<lparr>fields_prop := fs'\<rparr>,
            Inr \<lparr> ul_className = ''dataviews-list-view'',
                  children = map (render_item kc (p\<lparr>fields_prop := fs'\<rparr>)
                                    (find_mediaField (view p) fs')
                                    (find_primaryField (view p) fs')
                                    (visibleFields (view p) fs'))
                               (enumerate 0 (usedData h p)) \<rparr>)"
  using assms by (simp add: ViewList_def Let_def)

text \<open>
  The pass renders when the primary field is found and has \<open>formats\<close>: it returns one row
  per item of \<open>usedData\<close>, in order.
\<close>

lemma ViewList_renders:
  assumes "find_primaryField (view p) (fields_prop p) = Some pf" and "formats pf = Some fmts"
  shows "\<exists>fs'. normalize_primaryField (view p) (fields_prop p) = Inr fs' \<and>
           ViewList h kc p =
           (p\<lparr>fields_prop := fs'\<rparr>,
            Inr \<lparr> ul_className = ''dataviews-list-view'',
                  children = map (render_item kc (p\<lparr>fields_prop := fs'\<rparr>)
                                    (find_mediaField (view p) fs')
                                    (find_primaryField (view p) fs')
                                    (visibleFields (view p) fs'))
                               (enumerate 0 (usedData h p)) \<rparr>)"
  using normalize_primaryField_Inr [OF assms] ViewList_Inr by blast

lemma ViewList_children:
  assumes "find_primaryField (view p) (fields_prop p) = Some pf" and "formats pf = Some fmts"
  shows "\<exists>p' u. ViewList h kc p = (p', Inr u) \<and>
           children u =
             map (render_item kc p' (find_mediaField (view p) (fields_prop p'))
                    (find_primaryField (view p) (fields_prop p'))
                    (visibleFields (view p) (fields_prop p')))
               (enumerate 0 (usedData h p))"
  using ViewList_renders [OF assms, of h kc] by auto

lemma ViewList_rows:
  assumes "find_primaryField (view p) (fields_prop p) = Some pf" and "formats pf = Some fmts"
  shows "\<exists>fs' u. normalize_primaryField (view p) (fields_prop p) = Inr fs' \<and>
           ViewList h kc p = (p\<lparr>fields_prop := fs'\<rparr>, Inr u) \<and>
           length (children u) = length (usedData h p) \<and>
           (\<forall>i<length (usedData h p).
              children u ! i =
                render_item kc (p\<lparr>fields_prop := fs'\<rparr>) (find_mediaField (view p) fs')
                  (find_primaryField (view p) fs') (visibleFields (view p) fs')
                  (i, usedData h p ! i))"
proof -
  obtain fs' where n: "normalize_primaryField (view p) (fields_prop p) = Inr fs'"
    and v: "ViewList h kc p =
           (p\<lparr>fields_prop := fs'\<rparr>,
            Inr \<lparr> ul_className = ''dataviews-list-view'',
                  children = map (render_item kc (p\<lparr>fields_prop := fs'\<rparr>)
                                    (find_mediaField (view p) fs')
                                    (find_primaryField (view p) fs')
                                    (visibleFields (view p) fs'))
                               (enumerate 0 (usedData h p)) \<rparr>)"
    using ViewList_renders [OF assms] by blast
  show ?thesis
    using n by (simp add: v nth_enumerate_eq)
qed

subsection \<open>The props of one row\<close>

lemma onClick_render_item:
  "onClick (render_item kc p mf pf vfs (i, x)) ev = [OnSelectionChange [x]]"
  by (simp add: render_item_def)

lemma onKeyDown_render_item: "onKeyDown (render_item kc p mf pf vfs (i, x)) = onEnter kc x"
  by (simp add: render_item_def)

lemma aria_pressed_render_item:
  "aria_pressed (render_item kc p mf pf vfs (i, x)) = (item_id x \<in> set (selection p))"
  by (simp add: render_item_def array_includes_def)

lemma className_render_item:
  "className (render_item kc p mf pf vfs (i, x)) =
     (if item_id x \<in> set (selection p)
      then [''dataviews-list-view__item'', ''dataviews-list-view__item-selected'']
      else [''dataviews-list-view__item''])"
  by (simp add: render_item_def array_includes_def classNames_def)

lemma key_render_item:
  "key (render_item kc p mf pf vfs (i, x)) =
     (case getItemId p of
        None \<Rightarrow> JNum (int i)
      | Some g \<Rightarrow> if truthy (g x) then g x else JNum (int i))"
  by (simp add: render_item_def optional_getItemId_def js_or_def split: option.split)

lemma fields_div_render_item:
  "map span_key (fields_div (render_item kc p mf pf vfs (i, x))) = map field_id vfs"
  by (simp add: render_item_def comp_def)

subsection \<open>The reveal state in closed form\<close>

lemma reveal_state_take: "reveal_state b xs k = take (k * b) xs"
proof (induction k)
  case 0
  show ?case by simp
next
  case (Suc k)
  show ?case
  proof (cases "k * b \<le> length xs")
    case True
    then show ?thesis by (simp add: Suc reveal_tick_def min_def add.commute)
  next
    case False
    then show ?thesis by (simp add: Suc reveal_tick_def min_def)
  qed
qed

subsection \<open>The concrete configurations\<close>

lemma example_primary:
  "find_primaryField (view example_props) (fields_prop example_props) = Some example_title"
  by (simp add: find_primaryField_def example_props_def example_view_def example_title_def
      example_field_def)

lemma example_formats:
  "formats example_title = Some [\<lparr>format_type = ''link''\<rparr>, \<lparr>format_type = ''bold''\<rparr>]"
  by (simp add: example_title_def example_field_def)

lemma example_distinct: "distinct (map field_id (fields_prop example_props))"
  by (simp add: example_props_def example_title_def example_field_def)

lemma example_primary_id: "primaryField (layout (view example_props)) = Some ''title''"
  by (simp add: example_props_def example_view_def)



lemma example_usedData:
  "usedData h example_props = [example_item 1, example_item 2, example_item 3]"
  by (simp add: usedData_def example_props_def)

lemma example_visible:
  "map field_id (spec_visibleFields (view example_props) (fields_prop example_props)) =
     [''author'']"
  by (simp add: spec_visibleFields_def example_props_def example_view_def example_title_def
      example_field_def)

lemma example_deferred_primary:
  "find_primaryField (view example_deferred_props) (fields_prop example_deferred_props) =
     Some example_title"
  using example_primary by (simp add: example_deferred_props_def)

lemma example_deferred_data:
  "data example_deferred_props =
     [example_item 1, example_item 2, example_item 3, example_item 4]"
  by (simp add: example_deferred_props_def)

lemma example_deferred_flag: "deferredRendering example_deferred_props"
  by (simp add: example_deferred_props_def)

lemma example_falsy_id_primary:
  "find_primaryField (view example_falsy_id_props) (fields_prop example_falsy_id_props) =
     Some example_title"
  using example_primary by (simp add: example_falsy_id_props_def)

lemma all_less_2: "(\<forall>i<2. P i) = (P 0 \<and> P (Suc 0))"
  by (auto simp: less_Suc_eq numeral_2_eq_2)

lemma all_less_3: "(\<forall>i<3. P i) = (P 0 \<and> P (Suc 0) \<and> P (Suc (Suc 0)))"
  by (auto simp: less_Suc_eq numeral_3_eq_3)

lemma list_of_length_2: "length xs = 2 \<Longrightarrow> xs = [xs ! 0, xs ! Suc 0]"
  by (auto simp: list_eq_iff_nth_eq less_Suc_eq numeral_2_eq_2)

lemma list_of_length_3: "length xs = 3 \<Longrightarrow> xs = [xs ! 0, xs ! Suc 0, xs ! Suc (Suc 0)]"
  by (auto simp: list_eq_iff_nth_eq less_Suc_eq numeral_3_eq_3)

lemma list_of_length_4:
  "length xs = 4 \<Longrightarrow> xs = [xs ! 0, xs ! Suc 0, xs ! Suc (Suc 0), xs ! Suc (Suc (Suc 0))]"
  by (auto simp: list_eq_iff_nth_eq less_Suc_eq numeral_eq_Suc)

section \<open>The claims\<close>

subsection \<open>Selection by pointer click\<close>

text \<open>
  Claim C1. Whatever the selection was, when \<open>ViewList\<close> renders, the click handler of
  the row of every rendered item \<open>X\<close> makes exactly one callback invocation,
  \<open>onSelectionChange([X])\<close>: a single-element sequence holding \<open>X\<close>, never an additive
  selection.
\<close>

theorem click_selects_clicked_item:
  assumes "find_primaryField (view p) (fields_prop p) = Some pf" and "formats pf = Some fmts"
  shows "\<exists>p' u. ViewList h kc p = (p', Inr u) \<and>
           length (children u) = length (usedData h p) \<and>
           (\<forall>i<length (usedData h p). \<forall>ev.
              onClick (children u ! i) ev = [OnSelectionChange [usedData h p ! i]])"
  using ViewList_rows [OF assms, of h kc] by (auto simp: onClick_render_item)

text \<open>Items 1, 2 and 3 with items 1 and 2 selected: each click reports the clicked item alone.\<close>

theorem click_selects_clicked_item_witness:
  "\<exists>p' u. ViewList (useAsyncList_at 2) example_keycodes
            (example_props\<lparr>selection := [JNum 1, JNum 2]\<rparr>) = (p', Inr u) \<and>
     map (\<lambda>r. onClick r \<lparr>keyCode = 0\<rparr>) (children u) =
       [[OnSelectionChange [example_item 1]], [OnSelectionChange [example_item 2]],
        [OnSelectionChange [example_item 3]]]"
proof -
  let ?p = "example_props\<lparr>selection := [JNum 1, JNum 2]\<rparr>"
  have a: "find_primaryField (view ?p) (fields_prop ?p) = Some example_title"
    using example_primary by simp
  have d: "usedData (useAsyncList_at 2) ?p = [example_item 1, example_item 2, example_item 3]"
    by (simp add: usedData_def example_props_def)
  obtain p' u where v: "ViewList (useAsyncList_at 2) example_keycodes ?p = (p', Inr u)"
    and l: "length (children u) = length (usedData (useAsyncList_at 2) ?p)"
    and c: "\<forall>i<length (usedData (useAsyncList_at 2) ?p). \<forall>ev.
              onClick (children u ! i) ev =
                [OnSelectionChange [usedData (useAsyncList_at 2) ?p ! i]]"
    using click_selects_clicked_item [OF a example_formats, of "useAsyncList_at 2" example_keycodes]
    by (elim exE conjE)
  have l3: "length (children u) = 3"
    using l by (simp add: d)
  have k: "onClick (children u ! i) ev =
             [OnSelectionChange [[example_item 1, example_item 2, example_item 3] ! i]]"
    if "i < 3" for i ev
    using c [rule_format, of i ev] that by (simp add: d)
  have "map (\<lambda>r. onClick r \<lparr>keyCode = 0\<rparr>) (children u) =
       [[OnSelectionChange [example_item 1]], [OnSelectionChange [example_item 2]],
        [OnSelectionChange [example_item 3]]]"
    by (subst list_of_length_3 [OF l3]) (simp add: k)
  with v show ?thesis by (intro exI [of _ p'] exI [of _ u] conjI)
qed

subsection \<open>A missing primary field\<close>

text \<open>
  Claim C2 says that \<open>ViewList\<close> renders without a primary label when no field has the
  configured primary-field id, an empty fields list included. Line 79 is written for that
  case (\<open>primaryField?.render\<close>), but line 33 reads \<open>primaryField.formats\<close> unguarded:
  with an empty fields list the pass throws a \<open>TypeError\<close> and returns no tree.
\<close>

theorem ViewList_throws_on_empty_fields:
  "ViewList (useAsyncList_at 2) example_keycodes (example_props\<lparr>fields_prop := []\<rparr>) =
     (example_props\<lparr>fields_prop := []\<rparr>, Inl TypeError)"
  by (simp add: ViewList_def normalize_primaryField_def find_primaryField_def)

subsection \<open>Selection by keyboard\<close>

text \<open>
  Claim C3. When \<open>ViewList\<close> renders, a keydown on the row of a rendered item whose
  \<open>keyCode\<close> is \<open>ENTER\<close> or \<open>SPACE\<close> makes the one invocation \<open>onSelectionChange([item])\<close>,
  the same as a click on that row; a keydown with any other \<open>keyCode\<close> invokes no
  callback.
\<close>

theorem keydown_enter_or_space_selects:
  assumes "find_primaryField (view p) (fields_prop p) = Some pf" and "formats pf = Some fmts"
  shows "\<exists>p' u. ViewList h kc p = (p', Inr u) \<and>
           length (children u) = length (usedData h p) \<and>
           (\<forall>i<length (usedData h p). \<forall>ev.
              onKeyDown (children u ! i) ev =
                (if keyCode ev = ENTER kc \<or> keyCode ev = SPACE kc
                 then [OnSelectionChange [usedData h p ! i]] else []) \<and>
              (keyCode ev = ENTER kc \<or> keyCode ev = SPACE kc \<longrightarrow>
                 onKeyDown (children u ! i) ev = onClick (children u ! i) ev))"
  using ViewList_rows [OF assms, of h kc]
  by (auto simp: onClick_render_item onKeyDown_render_item onEnter_def array_includes_def)

text \<open>Enter (13) and Space (32) select the item of the row; Tab (9) does nothing.\<close>

theorem keydown_enter_or_space_selects_witness:
  "\<exists>p' u. ViewList (useAsyncList_at 2) example_keycodes example_props = (p', Inr u) \<and>
     map (\<lambda>r. onKeyDown r \<lparr>keyCode = 13\<rparr>) (children u) =
       [[OnSelectionChange [example_item 1]], [OnSelectionChange [example_item 2]],
        [OnSelectionChange [example_item 3]]] \<and>
     map (\<lambda>r. onKeyDown r \<lparr>keyCode = 32\<rparr>) (children u) =
       map (\<lambda>r. onClick r \<lparr>keyCode = 32\<rparr>) (children u) \<and>
     map (\<lambda>r. onKeyDown r \<lparr>keyCode = 9\<rparr>) (children u) = [[], [], []]"
proof -
  obtain p' u where v: "ViewList (useAsyncList_at 2) example_keycodes example_props = (p', Inr u)"
    and l: "length (children u) = length (usedData (useAsyncList_at 2) example_props)"
    and c: "\<forall>i<length (usedData (useAsyncList_at 2) example_props). \<forall>ev.
              onKeyDown (children u ! i) ev =
                (if keyCode ev = ENTER example_keycodes \<or> keyCode ev = SPACE example_keycodes
                 then [OnSelectionChange [usedData (useAsyncList_at 2) example_props ! i]]
                 else []) \<and>
              (keyCode ev = ENTER example_keycodes \<or> keyCode ev = SPACE example_keycodes \<longrightarrow>
                 onKeyDown (children u ! i) ev = onClick (children u ! i) ev)"
    using keydown_enter_or_space_selects [OF example_primary example_formats,
        of "useAsyncList_at 2" example_keycodes]
    by (elim exE conjE)
  have l3: "length (children u) = 3"
    using l by (simp add: example_usedData)
  have k: "onKeyDown (children u ! i) ev =
             (if keyCode ev = 13 \<or> keyCode ev = 32
              then [OnSelectionChange [[example_item 1, example_item 2, example_item 3] ! i]]
              else []) \<and>
           (keyCode ev = 13 \<or> keyCode ev = 32 \<longrightarrow>
              onKeyDown (children u ! i) ev = onClick (children u ! i) ev)"
    if "i < 3" for i ev
    using c [rule_format, of i ev] that unfolding example_usedData example_keycodes_def by auto
  have "map (\<lambda>r. onKeyDown r \<lparr>keyCode = 13\<rparr>) (children u) =
       [[OnSelectionChange [example_item 1]], [OnSelectionChange [example_item 2]],
        [OnSelectionChange [example_item 3]]] \<and>
     map (\<lambda>r. onKeyDown r \<lparr>keyCode = 32\<rparr>) (children u) =
       map (\<lambda>r. onClick r \<lparr>keyCode = 32\<rparr>) (children u) \<and>
     map (\<lambda>r. onKeyDown r \<lparr>keyCode = 9\<rparr>) (children u) = [[], [], []]"
    using k [of 0 "\<lparr>keyCode = 32\<rparr>"] k [of "Suc 0" "\<lparr>keyCode = 32\<rparr>"]
      k [of "Suc (Suc 0)" "\<lparr>keyCode = 32\<rparr>"]
    by (subst (1 2 3 4) list_of_length_3 [OF l3]) (simp add: k)
  with v show ?thesis by (intro exI [of _ p'] exI [of _ u] conjI) simp_all
qed

subsection \<open>The visible fields\<close>

text \<open>
  Claim C4. The visible fields that \<open>ViewList\<close> computes are the fields list it was
  given minus the hidden fields and minus the fields with the media or primary field id,
  in the order of the fields list; a field with the media or primary id is excluded also
  when it is not hidden. Every row shows one span per visible field, in that order.
\<close>

theorem visibleFields_are_fields_minus_hidden_media_primary:
  assumes "find_primaryField (view p) (fields_prop p) = Some pf" and "formats pf = Some fmts"
  shows "visibleFields (view p) (fields_prop p) = spec_visibleFields (view p) (fields_prop p) \<and>
         (\<exists>p' u. ViewList h kc p = (p', Inr u) \<and>
           visibleFields (view p) (fields_prop p') = spec_visibleFields (view p) (fields_prop p) \<and>
           subseq (visibleFields (view p) (fields_prop p')) (fields_prop p) \<and>
           (\<forall>f\<in>set (visibleFields (view p) (fields_prop p')).
              Some (field_id f) \<noteq> mediaField (layout (view p)) \<and>
              Some (field_id f) \<noteq> primaryField (layout (view p))) \<and>
           length (children u) = length (usedData h p) \<and>
           (\<forall>i<length (usedData h p).
              map span_key (fields_div (children u ! i)) =
                map field_id (spec_visibleFields (view p) (fields_prop p))))"
proof -
  obtain fs' u where n: "normalize_primaryField (view p) (fields_prop p) = Inr fs'"
    and v: "ViewList h kc p = (p\<lparr>fields_prop := fs'\<rparr>, Inr u)"
    and l: "length (children u) = length (usedData h p)"
    and r: "\<forall>i<length (usedData h p).
              children u ! i =
                render_item kc (p\<lparr>fields_prop := fs'\<rparr>) (find_mediaField (view p) fs')
                  (find_primaryField (view p) fs') (visibleFields (view p) fs')
                  (i, usedData h p ! i)"
    using ViewList_rows [OF assms, of h kc] by blast
  have e: "visibleFields (view p) fs' = spec_visibleFields (view p) (fields_prop p)"
    using visibleFields_normalized [OF n] by (simp add: visibleFields_spec)
  have s: "subseq (spec_visibleFields (view p) (fields_prop p)) (fields_prop p)"
    by (simp add: spec_visibleFields_def)
  have m: "\<forall>f\<in>set (spec_visibleFields (view p) (fields_prop p)).
              Some (field_id f) \<noteq> mediaField (layout (view p)) \<and>
              Some (field_id f) \<noteq> primaryField (layout (view p))"
    by (auto simp: spec_visibleFields_def)
  have c: "\<forall>i<length (usedData h p).
              map span_key (fields_div (children u ! i)) =
                map field_id (spec_visibleFields (view p) (fields_prop p))"
    using r e by (simp add: fields_div_render_item)
  have "\<exists>p' u. ViewList h kc p = (p', Inr u) \<and>
           visibleFields (view p) (fields_prop p') = spec_visibleFields (view p) (fields_prop p) \<and>
           subseq (visibleFields (view p) (fields_prop p')) (fields_prop p) \<and>
           (\<forall>f\<in>set (visibleFields (view p) (fields_prop p')).
              Some (field_id f) \<noteq> mediaField (layout (view p)) \<and>
              Some (field_id f) \<noteq> primaryField (layout (view p))) \<and>
           length (children u) = length (usedData h p) \<and>
           (\<forall>i<length (usedData h p).
              map span_key (fields_div (children u ! i)) =
                map field_id (spec_visibleFields (view p) (fields_prop p)))"
    using v e s m l c by (intro exI [of _ "p\<lparr>fields_prop := fs'\<rparr>"] exI [of _ u]) simp
  then show ?thesis
    using visibleFields_spec [of "view p" "fields_prop p"] by (intro conjI)
qed

text \<open>
  Fields image, title, author and date, with image the media field, title the primary
  field and date hidden: author is the only visible field.
\<close>

theorem visibleFields_are_fields_minus_hidden_media_primary_witness:
  "\<exists>p' u. ViewList (useAsyncList_at 2) example_keycodes example_props = (p', Inr u) \<and>
     map field_id (fields_prop example_props) = [''image'', ''title'', ''author'', ''date''] \<and>
     map field_id (visibleFields (view example_props) (fields_prop p')) = [''author''] \<and>
     map (\<lambda>r. map span_key (fields_div r)) (children u) = [[''author''], [''author''], [''author'']]"
proof -
  obtain p' u where v: "ViewList (useAsyncList_at 2) example_keycodes example_props = (p', Inr u)"
    and e: "visibleFields (view example_props) (fields_prop p') =
              spec_visibleFields (view example_props) (fields_prop example_props)"
    and l: "length (children u) = length (usedData (useAsyncList_at 2) example_props)"
    and c: "\<forall>i<length (usedData (useAsyncList_at 2) example_props).
              map span_key (fields_div (children u ! i)) =
                map field_id (spec_visibleFields (view example_props) (fields_prop example_props))"
    using visibleFields_are_fields_minus_hidden_media_primary
      [OF example_primary example_formats, of "useAsyncList_at 2" example_keycodes]
    by (elim exE conjE)
  have l3: "length (children u) = 3"
    using l by (simp add: example_usedData)
  have k: "map span_key (fields_div (children u ! i)) = [''author'']" if "i < 3" for i
    using c [rule_format, of i] that by (simp add: example_usedData example_visible)
  have a: "map field_id (fields_prop example_props) = [''image'', ''title'', ''author'', ''date'']"
    by (simp add: example_props_def example_title_def example_field_def)
  have b: "map field_id (visibleFields (view example_props) (fields_prop p')) = [''author'']"
    by (simp add: e example_visible)
  have "map (\<lambda>r. map span_key (fields_div r)) (children u) =
          [[''author''], [''author''], [''author'']]"
    by (subst list_of_length_3 [OF l3]) (simp add: k)
  with v a b show ?thesis by (intro exI [of _ p'] exI [of _ u] conjI)
qed

subsection \<open>The formats of the primary field\<close>

text \<open>
  Claim C5. Whenever a field has the id \<open>view.layout.primaryField\<close>, after the
  normalization step of \<open>ViewList\<close> the formats of the primary field hold no entry of type
  \<open>link\<close>: when the field has formats, the pass renders and the formats are the former
  ones without the \<open>link\<close> entries. With pairwise distinct field ids the primary field is
  the only field with that id.
\<close>

theorem primary_formats_have_no_link:
  assumes "find_primaryField (view p) (fields_prop p) = Some pf"
  shows "\<exists>pf'. find_primaryField (view p) (fields_prop (fst (ViewList h kc p))) = Some pf' \<and>
           (\<forall>fmts. formats pf' = Some fmts \<longrightarrow> (\<forall>fmt\<in>set fmts. format_type fmt \<noteq> ''link'')) \<and>
           (\<forall>fmts. formats pf = Some fmts \<longrightarrow>
              formats pf' = Some (strip_link fmts) \<and> (\<exists>u. snd (ViewList h kc p) = Inr u)) \<and>
           (distinct (map field_id (fields_prop p)) \<longrightarrow>
              (\<forall>f\<in>set (fields_prop (fst (ViewList h kc p))).
                 Some (field_id f) = primaryField (layout (view p)) \<longrightarrow> f = pf'))"
proof (cases "formats pf")
  case None
  have n: "normalize_primaryField (view p) (fields_prop p) = Inl TypeError"
    using assms None by (simp add: normalize_primaryField_def)
  have v: "ViewList h kc p = (p, Inl TypeError)"
    by (rule ViewList_Inl [OF n])
  have u: "\<forall>f\<in>set (fields_prop p).
             distinct (map field_id (fields_prop p)) \<longrightarrow>
             Some (field_id f) = primaryField (layout (view p)) \<longrightarrow> f = pf"
    using find_primaryField_unique [of "fields_prop p" _ "view p"] assms by auto
  show ?thesis
    using assms None u by (intro exI [of _ pf]) (simp add: v)
next
  case (Some fmts)
  let ?g = "\<lambda>f. f\<lparr>formats := Some (strip_link fmts)\<rparr>"
  let ?fs' = "update_first (\<lambda>f. Some (field_id f) = primaryField (layout (view p))) ?g
                (fields_prop p)"
  have n: "normalize_primaryField (view p) (fields_prop p) = Inr ?fs'"
    by (rule normalize_primaryField_Inr [OF assms Some])
  have v: "fst (ViewList h kc p) = p\<lparr>fields_prop := ?fs'\<rparr>" "\<exists>u. snd (ViewList h kc p) = Inr u"
    by (simp_all add: ViewList_Inr [OF n])
  have f: "find_primaryField (view p) ?fs' = Some (?g pf)"
    by (rule find_primaryField_normalized [OF assms Some])
  have u: "\<forall>f\<in>set ?fs'. distinct (map field_id (fields_prop p)) \<longrightarrow>
             Some (field_id f) = primaryField (layout (view p)) \<longrightarrow> f = ?g pf"
  proof (intro ballI impI)
    fix x
    assume "x \<in> set ?fs'" and "distinct (map field_id (fields_prop p))"
      and "Some (field_id x) = primaryField (layout (view p))"
    then have "find_primaryField (view p) ?fs' = Some x"
      by (intro find_primaryField_unique) (simp_all add: map_update_first)
    with f show "x = ?g pf" by simp
  qed
  show ?thesis
    using Some f u strip_link_no_link [of fmts] by (intro exI [of _ "?g pf"]) (simp add: v)
qed

text \<open>
  The title field has the formats link and bold; after the pass it has bold only, and it
  is the only field with the id title.
\<close>

theorem primary_formats_have_no_link_witness:
  "find_primaryField (view example_props) (fields_prop example_props) = Some example_title \<and>
   formats example_title = Some [\<lparr>format_type = ''link''\<rparr>, \<lparr>format_type = ''bold''\<rparr>] \<and>
   distinct (map field_id (fields_prop example_props)) \<and>
   (\<exists>pf'. find_primaryField (view example_props)
             (fields_prop (fst (ViewList (useAsyncList_at 2) example_keycodes example_props))) =
           Some pf' \<and>
          formats pf' = Some [\<lparr>format_type = ''bold''\<rparr>] \<and>
          set [f \<leftarrow> fields_prop (fst (ViewList (useAsyncList_at 2) example_keycodes example_props)).
                 field_id f = ''title''] = {pf'})"
proof -
  let ?fs = "fields_prop (fst (ViewList (useAsyncList_at 2) example_keycodes example_props))"
  obtain pf' where f: "find_primaryField (view example_props) ?fs = Some pf'"
    and s: "\<forall>fmts. formats example_title = Some fmts \<longrightarrow>
              formats pf' = Some (strip_link fmts) \<and>
              (\<exists>u. snd (ViewList (useAsyncList_at 2) example_keycodes example_props) = Inr u)"
    and u: "distinct (map field_id (fields_prop example_props)) \<longrightarrow>
              (\<forall>f\<in>set ?fs. Some (field_id f) = primaryField (layout (view example_props)) \<longrightarrow>
                 f = pf')"
    using primary_formats_have_no_link [OF example_primary, of "useAsyncList_at 2" example_keycodes]
    by (elim exE conjE)
  have b: "formats pf' = Some [\<lparr>format_type = ''bold''\<rparr>]"
    using s [rule_format, OF example_formats] by (simp add: strip_link_def)
  have m: "pf' \<in> set ?fs \<and> field_id pf' = ''title''"
    using f unfolding find_primaryField_def example_primary_id
    by (auto simp: find_Some_iff)
  have o: "\<forall>f\<in>set ?fs. field_id f = ''title'' \<longrightarrow> f = pf'"
    using u example_distinct unfolding example_primary_id by simp
  have e: "set [f \<leftarrow> ?fs. field_id f = ''title''] = {pf'}"
    using m o by auto
  from f b e example_primary example_formats example_distinct show ?thesis
    by (intro conjI exI [of _ pf'])
qed

subsection \<open>Which items a pass renders\<close>

text \<open>
  Claim C6. For every items list, when \<open>ViewList\<close> renders: with \<open>deferredRendering\<close>
  false the rows are the renderings of all of \<open>data\<close>, in order, whatever its size; with
  \<open>deferredRendering\<close> true they are the renderings of what the reveal scheduler
  \<open>useAsyncList\<close> returns for \<open>data\<close>, and the scheduler is called with the batch size
  \<open>step = 3\<close>.
\<close>

theorem renders_all_data_or_revealed_prefix:
  assumes "find_primaryField (view p) (fields_prop p) = Some pf" and "formats pf = Some fmts"
  shows "\<exists>p' u. ViewList h kc p = (p', Inr u) \<and>
           children u =
             map (render_item kc p' (find_mediaField (view p) (fields_prop p'))
                    (find_primaryField (view p) (fields_prop p'))
                    (visibleFields (view p) (fields_prop p')))
               (enumerate 0 (if deferredRendering p then h (data p) \<lparr>step = 3\<rparr> else data p)) \<and>
           length (children u) =
             length (if deferredRendering p then h (data p) \<lparr>step = 3\<rparr> else data p) \<and>
           (\<forall>i<length (children u). \<forall>ev.
              onClick (children u ! i) ev =
                [OnSelectionChange
                   [(if deferredRendering p then h (data p) \<lparr>step = 3\<rparr> else data p) ! i]])"
proof -
  have d: "usedData h p = (if deferredRendering p then h (data p) \<lparr>step = 3\<rparr> else data p)"
    by (simp add: usedData_def)
  obtain p' u where v: "ViewList h kc p = (p', Inr u)"
    and c: "children u =
             map (render_item kc p' (find_mediaField (view p) (fields_prop p'))
                    (find_primaryField (view p) (fields_prop p'))
                    (visibleFields (view p) (fields_prop p')))
               (enumerate 0 (usedData h p))"
    using ViewList_children [OF assms, of h kc] by (elim exE conjE)
  have o: "\<forall>i<length (children u). \<forall>ev.
              onClick (children u ! i) ev = [OnSelectionChange [usedData h p ! i]]"
    by (simp add: c nth_enumerate_eq onClick_render_item)
  have l: "length (children u) = length (usedData h p)"
    by (simp add: c)
  show ?thesis
    using v c o l unfolding d by (intro exI [of _ p'] exI [of _ u] conjI)
qed

text \<open>
  Four items and a hook that returns the first \<open>step\<close> items: three rows with deferred
  rendering, all four rows without.
\<close>

theorem renders_all_data_or_revealed_prefix_witness:
  "(\<exists>p' u. ViewList (\<lambda>l c. take (step c) l) example_keycodes example_deferred_props =
             (p', Inr u) \<and>
      map (\<lambda>r. onClick r \<lparr>keyCode = 0\<rparr>) (children u) =
        [[OnSelectionChange [example_item 1]], [OnSelectionChange [example_item 2]],
         [OnSelectionChange [example_item 3]]]) \<and>
   (\<exists>p' u. ViewList (\<lambda>l c. take (step c) l) example_keycodes
              (example_deferred_props\<lparr>deferredRendering := False\<rparr>) = (p', Inr u) \<and>
      map (\<lambda>r. onClick r \<lparr>keyCode = 0\<rparr>) (children u) =
        [[OnSelectionChange [example_item 1]], [OnSelectionChange [example_item 2]],
         [OnSelectionChange [example_item 3]], [OnSelectionChange [example_item 4]]])"
proof
  let ?h = "\<lambda>l c. take (step c) l :: item list"
  obtain p' u where v: "ViewList ?h example_keycodes example_deferred_props = (p', Inr u)"
    and l: "length (children u) =
              length (if deferredRendering example_deferred_props
                      then ?h (data example_deferred_props) \<lparr>step = 3\<rparr>
                      else data example_deferred_props)"
    and c: "\<forall>i<length (children u). \<forall>ev.
              onClick (children u ! i) ev =
                [OnSelectionChange
                   [(if deferredRendering example_deferred_props
                     then ?h (data example_deferred_props) \<lparr>step = 3\<rparr>
                     else data example_deferred_props) ! i]]"
    using renders_all_data_or_revealed_prefix [OF example_deferred_primary example_formats,
        of ?h example_keycodes]
    by (elim exE conjE)
  have l3: "length (children u) = 3"
    using l by (simp add: example_deferred_data example_deferred_flag)
  have k: "onClick (children u ! i) ev =
             [OnSelectionChange [[example_item 1, example_item 2, example_item 3] ! i]]"
    if "i < 3" for i ev
    using c [rule_format, of i ev] that l3
    by (simp add: example_deferred_data example_deferred_flag)
  have "map (\<lambda>r. onClick r \<lparr>keyCode = 0\<rparr>) (children u) =
        [[OnSelectionChange [example_item 1]], [OnSelectionChange [example_item 2]],
         [OnSelectionChange [example_item 3]]]"
    by (subst list_of_length_3 [OF l3]) (simp add: k)
  with v show "\<exists>p' u. ViewList ?h example_keycodes example_deferred_props = (p', Inr u) \<and>
      map (\<lambda>r. onClick r \<lparr>keyCode = 0\<rparr>) (children u) =
        [[OnSelectionChange [example_item 1]], [OnSelectionChange [example_item 2]],
         [OnSelectionChange [example_item 3]]]"
    by (intro exI [of _ p'] exI [of _ u] conjI)
next
  let ?h = "\<lambda>l c. take (step c) l :: item list"
  let ?p = "example_deferred_props\<lparr>deferredRendering := False\<rparr>"
  have a: "find_primaryField (view ?p) (fields_prop ?p) = Some example_title"
    using example_deferred_primary by simp
  have f: "\<not> deferredRendering ?p"
    by simp
  have dt: "data ?p = [example_item 1, example_item 2, example_item 3, example_item 4]"
    by (simp add: example_deferred_data)
  obtain p' u where v: "ViewList ?h example_keycodes ?p = (p', Inr u)"
    and l: "length (children u) =
              length (if deferredRendering ?p then ?h (data ?p) \<lparr>step = 3\<rparr> else data ?p)"
    and c: "\<forall>i<length (children u). \<forall>ev.
              onClick (children u ! i) ev =
                [OnSelectionChange
                   [(if deferredRendering ?p then ?h (data ?p) \<lparr>step = 3\<rparr> else data ?p) ! i]]"
    using renders_all_data_or_revealed_prefix [OF a example_formats, of ?h example_keycodes]
    by (elim exE conjE)
  have l4: "length (children u) = 4"
    using l unfolding dt by simp
  have k: "onClick (children u ! i) ev =
             [OnSelectionChange
                [[example_item 1, example_item 2, example_item 3, example_item 4] ! i]]"
    if "i < 4" for i ev
    using c [rule_format, of i ev] that l4 unfolding dt by simp
  have "map (\<lambda>r. onClick r \<lparr>keyCode = 0\<rparr>) (children u) =
        [[OnSelectionChange [example_item 1]], [OnSelectionChange [example_item 2]],
         [OnSelectionChange [example_item 3]], [OnSelectionChange [example_item 4]]]"
    by (subst list_of_length_4 [OF l4]) (simp add: k)
  with v show "\<exists>p' u. ViewList ?h example_keycodes ?p = (p', Inr u) \<and>
      map (\<lambda>r. onClick r \<lparr>keyCode = 0\<rparr>) (children u) =
        [[OnSelectionChange [example_item 1]], [OnSelectionChange [example_item 2]],
         [OnSelectionChange [example_item 3]], [OnSelectionChange [example_item 4]]]"
    by (intro exI [of _ p'] exI [of _ u] conjI)
qed

subsection \<open>The side effect of a render pass\<close>




subsection \<open>The pressed state\<close>

text \<open>
  Claim C8. When \<open>ViewList\<close> renders, the row of every rendered item has \<open>aria-pressed\<close>
  true, and carries the class \<open>dataviews-list-view__item-selected\<close>, if and only if the
  id of the item is in the selection.
\<close>

theorem pressed_iff_selected:
  assumes "find_primaryField (view p) (fields_prop p) = Some pf" and "formats pf = Some fmts"
  shows "\<exists>p' u. ViewList h kc p = (p', Inr u) \<and>
           length (children u) = length (usedData h p) \<and>
           (\<forall>i<length (usedData h p).
              aria_pressed (children u ! i) = (item_id (usedData h p ! i) \<in> set (selection p)) \<and>
              (''dataviews-list-view__item-selected'' \<in> set (className (children u ! i))) =
                (item_id (usedData h p ! i) \<in> set (selection p)))"
  using ViewList_rows [OF assms, of h kc]
  by (auto simp: aria_pressed_render_item className_render_item)

text \<open>Items 1, 2 and 3 with selection 2: only the row of item 2 is pressed.\<close>

theorem pressed_iff_selected_witness:
  "\<exists>p' u. ViewList (useAsyncList_at 2) example_keycodes example_props = (p', Inr u) \<and>
     map aria_pressed (children u) = [False, True, False] \<and>
     map (\<lambda>r. ''dataviews-list-view__item-selected'' \<in> set (className r)) (children u) =
       [False, True, False]"
proof -
  obtain p' u where v: "ViewList (useAsyncList_at 2) example_keycodes example_props = (p', Inr u)"
    and l: "length (children u) = length (usedData (useAsyncList_at 2) example_props)"
    and c: "\<forall>i<length (usedData (useAsyncList_at 2) example_props).
              aria_pressed (children u ! i) =
                (item_id (usedData (useAsyncList_at 2) example_props ! i)
                   \<in> set (selection example_props)) \<and>
              (''dataviews-list-view__item-selected'' \<in> set (className (children u ! i))) =
                (item_id (usedData (useAsyncList_at 2) example_props ! i)
                   \<in> set (selection example_props))"
    using pressed_iff_selected [OF example_primary example_formats,
        of "useAsyncList_at 2" example_keycodes]
    by (elim exE conjE)
  have l3: "length (children u) = 3"
    using l by (simp add: example_usedData)
  have s: "selection example_props = [JNum 2]"
    by (simp add: example_props_def)
  have "map aria_pressed (children u) = [False, True, False] \<and>
     map (\<lambda>r. ''dataviews-list-view__item-selected'' \<in> set (className r)) (children u) =
       [False, True, False]"
    using c unfolding example_usedData s
    by (subst (1 2) list_of_length_3 [OF l3]) (simp add: all_less_3 example_item_def)
  with v show ?thesis by (intro exI [of _ p'] exI [of _ u] conjI) simp_all
qed

subsection \<open>Deferred rendering over the scheduling ticks\<close>

text \<open>
  Claim C9. With \<open>deferredRendering\<close> true, a list of \<open>N\<close> items and the batch size 3,
  the pass that follows the \<open>k\<close>-th scheduling tick renders \<open>min (3 * k) N\<close> rows, those of
  the first items of the list: 3, 6, 9, ... clamped to \<open>N\<close>, never fewer than the tick
  before, and \<open>N\<close> from the final tick on. The reveal state is a prefix of the full list
  and of the reveal state of the next tick.
\<close>

theorem deferred_rendering_reveals_in_batches_of_three:
  assumes "find_primaryField (view p) (fields_prop p) = Some pf" and "formats pf = Some fmts"
    and "deferredRendering p"
  shows "\<exists>p' u. ViewList (useAsyncList_at k) kc p = (p', Inr u) \<and>
           length (children u) = min (3 * k) (length (data p)) \<and>
           (\<forall>i<length (children u). \<forall>ev.
              onClick (children u ! i) ev = [OnSelectionChange [data p ! i]]) \<and>
           reveal_state 3 (data p) k = take (3 * k) (data p) \<and>
           prefix (reveal_state 3 (data p) k) (reveal_state 3 (data p) (Suc k)) \<and>
           prefix (reveal_state 3 (data p) k) (data p) \<and>
           length (reveal_state 3 (data p) k) \<le> length (reveal_state 3 (data p) (Suc k)) \<and>
           reveal_state 3 (data p) ((length (data p) + 2) div 3) = data p \<and>
           ((length (data p) + 2) div 3 \<le> k \<longrightarrow> length (children u) = length (data p))"
proof -
  have d: "usedData (useAsyncList_at k) p = take (3 * k) (data p)"
    using assms(3) by (simp add: usedData_def useAsyncList_at_def reveal_state_take mult.commute)
  obtain fs' u where v: "ViewList (useAsyncList_at k) kc p = (p\<lparr>fields_prop := fs'\<rparr>, Inr u)"
    and l: "length (children u) = length (take (3 * k) (data p))"
    and r: "\<forall>i<length (take (3 * k) (data p)).
              children u ! i =
                render_item kc (p\<lparr>fields_prop := fs'\<rparr>) (find_mediaField (view p) fs')
                  (find_primaryField (view p) fs') (visibleFields (view p) fs')
                  (i, take (3 * k) (data p) ! i)"
    using ViewList_rows [OF assms(1,2), of "useAsyncList_at k" kc] unfolding d by blast
  have c: "\<forall>i<length (children u). \<forall>ev.
              onClick (children u ! i) ev = [OnSelectionChange [data p ! i]]"
    using l r by (simp add: onClick_render_item)
  have t: "reveal_state 3 (data p) k = take (3 * k) (data p)"
    by (simp add: reveal_state_take mult.commute)
  have p1: "prefix (reveal_state 3 (data p) k) (reveal_state 3 (data p) (Suc k))"
    unfolding reveal_state_take by (simp add: take_is_prefix prefix_def) (metis add.commute take_add)
  have p2: "prefix (reveal_state 3 (data p) k) (data p)"
    unfolding reveal_state_take by (rule take_is_prefix)
  have m: "length (reveal_state 3 (data p) k) \<le> length (reveal_state 3 (data p) (Suc k))"
    using p1 by (rule prefix_length_le)
  have f: "reveal_state 3 (data p) ((length (data p) + 2) div 3) = data p"
    unfolding reveal_state_take by simp
  have g: "(length (data p) + 2) div 3 \<le> k \<longrightarrow> length (children u) = length (data p)"
    using l by auto
  show ?thesis
    using v l c t p1 p2 m f g by (intro exI [of _ "p\<lparr>fields_prop := fs'\<rparr>"] exI [of _ u]) simp
qed

text \<open>Four items: three rows after the first tick, all four after the second.\<close>

theorem deferred_rendering_reveals_in_batches_of_three_witness:
  "(\<exists>p' u. ViewList (useAsyncList_at 1) example_keycodes example_deferred_props = (p', Inr u) \<and>
      length (children u) = 3) \<and>
   (\<exists>p' u. ViewList (useAsyncList_at 2) example_keycodes example_deferred_props = (p', Inr u) \<and>
      length (children u) = 4) \<and>
   reveal_state 3 (data example_deferred_props) 1 = [example_item 1, example_item 2, example_item 3] \<and>
   reveal_state 3 (data example_deferred_props) 2 =
     [example_item 1, example_item 2, example_item 3, example_item 4]"
proof (intro conjI)
  obtain p' u where v: "ViewList (useAsyncList_at 1) example_keycodes example_deferred_props = (p', Inr u)"
    and l: "length (children u) = min (3 * 1) (length (data example_deferred_props))"
    using deferred_rendering_reveals_in_batches_of_three
      [OF example_deferred_primary example_formats example_deferred_flag, of 1 example_keycodes]
    by (elim exE conjE)
  have "length (children u) = 3"
    using l by (simp add: example_deferred_data)
  with v show "\<exists>p' u. ViewList (useAsyncList_at 1) example_keycodes example_deferred_props = (p', Inr u) \<and>
      length (children u) = 3"
    by (intro exI [of _ p'] exI [of _ u] conjI)
next
  obtain p' u where v: "ViewList (useAsyncList_at 2) example_keycodes example_deferred_props = (p', Inr u)"
    and l: "length (children u) = min (3 * 2) (length (data example_deferred_props))"
    using deferred_rendering_reveals_in_batches_of_three
      [OF example_deferred_primary example_formats example_deferred_flag, of 2 example_keycodes]
    by (elim exE conjE)
  have "length (children u) = 4"
    using l by (simp add: example_deferred_data)
  with v show "\<exists>p' u. ViewList (useAsyncList_at 2) example_keycodes example_deferred_props = (p', Inr u) \<and>
      length (children u) = 4"
    by (intro exI [of _ p'] exI [of _ u] conjI)
next
  show "reveal_state 3 (data example_deferred_props) 1 = [example_item 1, example_item 2, example_item 3]"
    by (simp add: example_deferred_data reveal_tick_def)
next
  show "reveal_state 3 (data example_deferred_props) 2 =
     [example_item 1, example_item 2, example_item 3, example_item 4]"
    by (simp add: example_deferred_data reveal_tick_def numeral_2_eq_2)
qed

subsection \<open>The list key\<close>

text \<open>
  Claim C10. When \<open>ViewList\<close> renders, the key of the row of a rendered item is the
  positional index when \<open>getItemId\<close> is absent and also whenever \<open>getItemId\<close> returns a
  falsy value for the item, such as the id \<open>0\<close> or the empty string: the fallback tests
  truthiness, not presence.
\<close>

theorem key_falls_back_on_falsy_id:
  assumes "find_primaryField (view p) (fields_prop p) = Some pf" and "formats pf = Some fmts"
  shows "\<exists>p' u. ViewList h kc p = (p', Inr u) \<and>
           length (children u) = length (usedData h p) \<and>
           (\<forall>i<length (usedData h p).
              key (children u ! i) =
                (case getItemId p of
                   None \<Rightarrow> JNum (int i)
                 | Some g \<Rightarrow>
                     if truthy (g (usedData h p ! i)) then g (usedData h p ! i)
                     else JNum (int i)) \<and>
              (\<forall>g. getItemId p = Some g \<and>
                   (g (usedData h p ! i) = JNum 0 \<or> g (usedData h p ! i) = JStr []) \<longrightarrow>
                   key (children u ! i) = JNum (int i)))"
  using ViewList_rows [OF assms, of h kc]
  by (auto simp: key_render_item)

text \<open>
  \<open>getItemId\<close> returns the id; the item with id 5 has the key 5, the item with id 0 at
  index 1 has the key 1.
\<close>

theorem key_falls_back_on_falsy_id_witness:
  "\<exists>p' u. ViewList (useAsyncList_at 2) example_keycodes example_falsy_id_props = (p', Inr u) \<and>
     map key (children u) = [JNum 5, JNum 1]"
proof -
  have d: "usedData (useAsyncList_at 2) example_falsy_id_props = [example_item 5, example_item 0]"
    by (simp add: usedData_def example_falsy_id_props_def example_props_def)
  have g: "getItemId example_falsy_id_props = Some item_id"
    by (simp add: example_falsy_id_props_def example_props_def)
  obtain p' u where v: "ViewList (useAsyncList_at 2) example_keycodes example_falsy_id_props = (p', Inr u)"
    and l: "length (children u) = length (usedData (useAsyncList_at 2) example_falsy_id_props)"
    and c: "\<forall>i<length (usedData (useAsyncList_at 2) example_falsy_id_props).
              key (children u ! i) =
                (case getItemId example_falsy_id_props of
                   None \<Rightarrow> JNum (int i)
                 | Some g \<Rightarrow>
                     if truthy (g (usedData (useAsyncList_at 2) example_falsy_id_props ! i))
                     then g (usedData (useAsyncList_at 2) example_falsy_id_props ! i)
                     else JNum (int i)) \<and>
              (\<forall>g. getItemId example_falsy_id_props = Some g \<and>
                   (g (usedData (useAsyncList_at 2) example_falsy_id_props ! i) = JNum 0 \<or>
                    g (usedData (useAsyncList_at 2) example_falsy_id_props ! i) = JStr []) \<longrightarrow>
                   key (children u ! i) = JNum (int i))"
    using key_falls_back_on_falsy_id [OF example_falsy_id_primary example_formats,
        of "useAsyncList_at 2" example_keycodes]
    by (elim exE conjE)
  have l2: "length (children u) = 2"
    using l by (simp add: d)
  have "map key (children u) = [JNum 5, JNum 1]"
    using c unfolding d g
    by (subst list_of_length_2 [OF l2]) (simp add: all_less_2 example_item_def)
  with v show ?thesis by (intro exI [of _ p'] exI [of _ u] conjI) simp_all
qed

end
